theory Spec2Isabelle
  imports Complex_Main
begin

section \<open>JavaScript values\<close>

text \<open>
  The feed is schema-less JSON, so the model keeps JavaScript's dynamic values. A number is
  a finite real, \<open>NaN\<close> or one of the two infinities; the two zeros are one number. Every
  double is such a number, and the comparison of doubles is the comparison of these
  numbers. What an operation on doubles rounds to is not computed here: where the program
  calculates with doubles (\<open>calculateDistance\<close>), the arithmetic is a parameter of the
  model. A string is a list of code units below 256 (ASCII and Latin-1); other characters
  are outside the model. An object lists each of its keys once.
\<close>

datatype jsnum = NaN | Infinity | NegInfinity | Fin real

datatype jsval =
    JUndefined
  | JNull
  | JBool bool
  | JNum jsnum
  | JStr string
  | JArr "jsval list"
  | JObj "(string \<times> jsval) list"

datatype js_error = TypeError

text \<open>Truthiness, as \<open>if (v)\<close>, \<open>v && w\<close> and \<open>v || w\<close> test it.\<close>

definition truthyNum :: "jsnum \<Rightarrow> bool" where
  "truthyNum n = (n \<noteq> NaN \<and> n \<noteq> Fin 0)"

fun truthy :: "jsval \<Rightarrow> bool" where
  "truthy JUndefined = False"
| "truthy JNull = False"
| "truthy (JBool b) = b"
| "truthy (JNum n) = truthyNum n"
| "truthy (JStr s) = (s \<noteq> [])"
| "truthy (JArr xs) = True"
| "truthy (JObj kvs) = True"

definition js_or :: "jsval \<Rightarrow> jsval \<Rightarrow> jsval" where
  "js_or a b = (if truthy a then a else b)"

text \<open>\<open>n || 0\<close> on a number \<open>n\<close>.\<close>

definition orZero :: "jsnum \<Rightarrow> jsnum" where
  "orZero n = (if truthyNum n then n else Fin 0)"

text \<open>
  Property reads. \<open>get\<close> reads a key of a top-level record; \<open>getProp\<close> reads a key of a
  nested value. The keys the program reads (\<open>path\<close>, \<open>lat\<close>, \<open>lng\<close>, \<open>latitude\<close>,
  \<open>longitude\<close>) are no built-in property of a string, number, boolean or array, so
  there the read gives \<open>undefined\<close>. On \<open>null\<close> and \<open>undefined\<close> a read would throw;
  every such read in the program stands behind a truthiness test of the value, and
  \<open>undefined\<close> here makes the conjunction false exactly as the short circuit does.
\<close>

definition get :: "(string \<rightharpoonup> jsval) \<Rightarrow> string \<Rightarrow> jsval" where
  "get obj k = (case obj k of Some v \<Rightarrow> v | None \<Rightarrow> JUndefined)"

fun getProp :: "jsval \<Rightarrow> string \<Rightarrow> jsval" where
  "getProp (JObj kvs) k = (case map_of kvs k of Some v \<Rightarrow> v | None \<Rightarrow> JUndefined)"
| "getProp v k = JUndefined"

fun isArray :: "jsval \<Rightarrow> bool" where
  "isArray (JArr xs) = True"
| "isArray v = False"

fun elems :: "jsval \<Rightarrow> jsval list" where
  "elems (JArr xs) = xs"
| "elems v = []"

subsection \<open>Number comparison and subtraction\<close>

fun js_lt :: "jsnum \<Rightarrow> jsnum \<Rightarrow> bool" where
  "js_lt NaN b = False"
| "js_lt a NaN = False"
| "js_lt (Fin x) (Fin y) = (x < y)"
| "js_lt (Fin x) Infinity = True"
| "js_lt (Fin x) NegInfinity = False"
| "js_lt NegInfinity Infinity = True"
| "js_lt NegInfinity (Fin y) = True"
| "js_lt NegInfinity NegInfinity = False"
| "js_lt Infinity b = False"

fun js_sub :: "jsnum \<Rightarrow> jsnum \<Rightarrow> jsnum" where
  "js_sub NaN b = NaN"
| "js_sub a NaN = NaN"
| "js_sub (Fin x) (Fin y) = Fin (x - y)"
| "js_sub (Fin x) Infinity = NegInfinity"
| "js_sub (Fin x) NegInfinity = Infinity"
| "js_sub Infinity Infinity = NaN"
| "js_sub Infinity b = Infinity"
| "js_sub NegInfinity NegInfinity = NaN"
| "js_sub NegInfinity b = NegInfinity"

fun js_neg :: "jsnum \<Rightarrow> jsnum" where
  "js_neg NaN = NaN"
| "js_neg Infinity = NegInfinity"
| "js_neg NegInfinity = Infinity"
| "js_neg (Fin x) = Fin (- x)"

subsection \<open>parseFloat, parseInt, toLowerCase\<close>

definition isDigit :: "char \<Rightarrow> bool" where
  "isDigit c = (c \<in> set ''0123456789'')"

definition digitValue :: "char \<Rightarrow> nat" where
  "digitValue c = of_char c - 48"

definition digitsValue :: "string \<Rightarrow> nat" where
  "digitsValue ds = foldl (\<lambda>acc c. 10 * acc + digitValue c) 0 ds"

text \<open>
  The white space and line terminators below 256: tab, line feed, vertical tab, form
  feed, carriage return, space, no-break space.
\<close>

definition isWhiteSpace :: "char \<Rightarrow> bool" where
  "isWhiteSpace c = (of_char c \<in> {9, 10, 11, 12, 13, 32, 160 :: nat})"

text \<open>An optional sign: whether it is a minus, and the rest of the string.\<close>

definition signOf :: "string \<Rightarrow> bool \<times> string" where
  "signOf s = (case s of
       [] \<Rightarrow> (False, s)
     | c # t \<Rightarrow> if c = CHR ''-'' then (True, t)
                else if c = CHR ''+'' then (False, t) else (False, s))"

definition scale10 :: "real \<Rightarrow> int \<Rightarrow> real" where
  "scale10 m k = (if 0 \<le> k then m * 10 ^ nat k else m / 10 ^ nat (- k))"

text \<open>
  The exponent part \<open>e\<close> or \<open>E\<close>, an optional sign and at least one digit; anything else
  is no exponent and the literal ends before it.
\<close>

definition exponentPart :: "string \<Rightarrow> int" where
  "exponentPart s = (case s of
       [] \<Rightarrow> 0
     | c # t \<Rightarrow>
         if c = CHR ''e'' \<or> c = CHR ''E'' then
           (let ds = takeWhile isDigit (snd (signOf t)) in
            if ds = [] then 0
            else if fst (signOf t) then - int (digitsValue ds) else int (digitsValue ds))
         else 0)"

text \<open>
  The number of a non-negative decimal value: \<open>Infinity\<close> from the midpoint between the
  largest double and \<open>2^1024\<close> on, 0 up to the midpoint between 0 and the smallest double
  \<open>2^-1074\<close> (ties go to the even neighbour). Between the two the value is kept as it
  is: the rounding to the nearest double is not modelled.
\<close>

definition toDouble :: "real \<Rightarrow> jsnum" where
  "toDouble x = (if 2 ^ 1024 - 2 ^ 970 \<le> x then Infinity
                 else if x \<le> 1 / 2 ^ 1075 then Fin 0
                 else Fin x)"

text \<open>
  The longest prefix that is a StrUnsignedDecimalLiteral: \<open>Infinity\<close>, or digits with an
  optional fraction and exponent, or a fraction that starts with the point.
\<close>

definition strUnsignedDecimal :: "string \<Rightarrow> jsnum" where
  "strUnsignedDecimal s =
     (if take 8 s = ''Infinity'' then Infinity
      else
        let ip = takeWhile isDigit s;
            r1 = dropWhile isDigit s;
            hasPoint = (r1 \<noteq> [] \<and> hd r1 = CHR ''.'');
            fp = (if hasPoint then takeWhile isDigit (tl r1) else []);
            r2 = (if hasPoint then dropWhile isDigit (tl r1) else r1)
        in if ip = [] \<and> fp = [] then NaN
           else toDouble (scale10 (real (digitsValue (ip @ fp)))
                                  (exponentPart r2 - int (length fp))))"

definition parseFloatStr :: "string \<Rightarrow> jsnum" where
  "parseFloatStr s =
     (let t = dropWhile isWhiteSpace s;
          v = strUnsignedDecimal (snd (signOf t))
      in if fst (signOf t) then js_neg v else v)"

text \<open>
  \<open>parseFloat\<close> turns its argument into a string first. A number prints to a string that
  parses back to itself. An array prints as its elements joined by commas, and a comma
  ends the literal, so the result is that of the first element (\<open>null\<close> and \<open>undefined\<close>
  print as the empty string there). \<open>undefined\<close>, \<open>null\<close>, \<open>true\<close>, \<open>false\<close> and
  \<open>[object Object]\<close> start no literal.
\<close>

fun parseFloat :: "jsval \<Rightarrow> jsnum" where
  "parseFloat (JStr s) = parseFloatStr s"
| "parseFloat (JNum n) = n"
| "parseFloat (JArr (x # xs)) = parseFloat x"
| "parseFloat v = NaN"

text \<open>
  \<open>parseInt(s, 10)\<close>: the integer of the leading digits, kept exact.
\<close>

definition parseIntStr :: "string \<Rightarrow> jsnum" where
  "parseIntStr s =
     (let t = dropWhile isWhiteSpace s;
          ds = takeWhile isDigit (snd (signOf t))
      in if ds = [] then NaN
         else if fst (signOf t) then Fin (- real (digitsValue ds))
         else Fin (real (digitsValue ds)))"

definition trunc :: "real \<Rightarrow> int" where
  "trunc r = (if 0 \<le> r then \<lfloor>r\<rfloor> else \<lceil>r\<rceil>)"

definition leadingDigit :: "real \<Rightarrow> int" where
  "leadingDigit x = \<lfloor>x / 10 powr real_of_int \<lfloor>log 10 x\<rfloor>\<rfloor>"

text \<open>
  \<open>parseInt(n, 10)\<close> of a number reads the integer digits of its printed form: the
  truncation while the number prints in plain notation (\<open>1e-6 \<le> |n| < 1e21\<close>), the
  leading digit once it prints with an exponent.
\<close>

definition parseIntNum :: "jsnum \<Rightarrow> jsnum" where
  "parseIntNum n = (case n of
       Fin r \<Rightarrow>
         if r = 0 then Fin 0
         else if 1 / 10 ^ 6 \<le> \<bar>r\<bar> \<and> \<bar>r\<bar> < 10 ^ 21 then Fin (real_of_int (trunc r))
         else Fin (sgn r * real_of_int (leadingDigit \<bar>r\<bar>))
     | _ \<Rightarrow> NaN)"

fun parseInt10 :: "jsval \<Rightarrow> jsnum" where
  "parseInt10 (JStr s) = parseIntStr s"
| "parseInt10 (JNum n) = parseIntNum n"
| "parseInt10 (JArr (x # xs)) = parseInt10 x"
| "parseInt10 v = NaN"

text \<open>
  The upper-case letters below 256 and their lower-case letters: A to Z, and the Latin-1
  letters 0xC0 to 0xDE without the multiplication sign 0xD7. Any other character is
  kept.
\<close>

definition upperLatin1 :: "char list" where
  "upperLatin1 =
     [CHR 0xC0, CHR 0xC1, CHR 0xC2, CHR 0xC3, CHR 0xC4, CHR 0xC5, CHR 0xC6, CHR 0xC7,
      CHR 0xC8, CHR 0xC9, CHR 0xCA, CHR 0xCB, CHR 0xCC, CHR 0xCD, CHR 0xCE, CHR 0xCF,
      CHR 0xD0, CHR 0xD1, CHR 0xD2, CHR 0xD3, CHR 0xD4, CHR 0xD5, CHR 0xD6,
      CHR 0xD8, CHR 0xD9, CHR 0xDA, CHR 0xDB, CHR 0xDC, CHR 0xDD, CHR 0xDE]"

definition lowerLatin1 :: "char list" where
  "lowerLatin1 =
     [CHR 0xE0, CHR 0xE1, CHR 0xE2, CHR 0xE3, CHR 0xE4, CHR 0xE5, CHR 0xE6, CHR 0xE7,
      CHR 0xE8, CHR 0xE9, CHR 0xEA, CHR 0xEB, CHR 0xEC, CHR 0xED, CHR 0xEE, CHR 0xEF,
      CHR 0xF0, CHR 0xF1, CHR 0xF2, CHR 0xF3, CHR 0xF4, CHR 0xF5, CHR 0xF6,
      CHR 0xF8, CHR 0xF9, CHR 0xFA, CHR 0xFB, CHR 0xFC, CHR 0xFD, CHR 0xFE]"

definition lowerChar :: "char \<Rightarrow> char" where
  "lowerChar c =
     (case map_of (zip (''ABCDEFGHIJKLMNOPQRSTUVWXYZ'' @ upperLatin1)
                       (''abcdefghijklmnopqrstuvwxyz'' @ lowerLatin1)) c of
        Some l \<Rightarrow> l
      | None \<Rightarrow> c)"

definition toLowerCase :: "string \<Rightarrow> string" where
  "toLowerCase s = map lowerChar s"

text \<open>
  \<open>new Date(t)\<close> holds the time value \<open>t\<close> truncated to an integer, or \<open>NaN\<close> (an invalid
  date) when \<open>t\<close> is not finite or lies more than 8.64e15 ms from the epoch.
\<close>

definition newDate :: "jsnum \<Rightarrow> jsnum" where
  "newDate t = (case t of
       Fin r \<Rightarrow> if \<bar>r\<bar> \<le> 8640000000000000 then Fin (real_of_int (trunc r)) else NaN
     | _ \<Rightarrow> NaN)"

section \<open>Feed normalizer (services/firebase.js, subscribeToShuttles)\<close>

text \<open>
  One element of the array handed to the callback: the entry's key, the entry's own
  fields (the spread \<open>...shuttle\<close>), and the five properties written after the spread,
  which therefore replace any field of the same name. The spread stands after \<open>id\<close>, so
  an entry's own \<open>id\<close> field replaces the key. Entries are JSON objects; ids are strings,
  and an \<open>id\<close> field that is no string is outside the model.
\<close>

record normalized =
  shuttle_id :: string
  entry :: "string \<rightharpoonup> jsval"
  latitude :: jsnum
  longitude :: jsnum
  prevLat :: jsnum
  prevLong :: jsnum
  speed :: jsnum

definition normalizeEntry :: "string \<Rightarrow> (string \<rightharpoonup> jsval) \<Rightarrow> normalized" where
  "normalizeEntry i shuttle =
     \<lparr> shuttle_id = (case shuttle ''id'' of Some (JStr own) \<Rightarrow> own | _ \<Rightarrow> i),
       entry = shuttle,
       latitude = orZero (parseFloat (get shuttle ''latitude'')),
       longitude = orZero (parseFloat (get shuttle ''logitude'')),
       prevLat = orZero (parseFloat (get shuttle ''prevLat'')),
       prevLong = orZero (parseFloat (get shuttle ''prevLong'')),
       speed = orZero (parseFloat (get shuttle ''speed'')) \<rparr>"

text \<open>
  The two listeners given to \<open>onValue\<close>, as the array each passes to the callback.
  \<open>None\<close> is a root without data (\<open>snapshot.val()\<close> is null).
\<close>

datatype feed_event =
    ValueEvent "(string \<times> (string \<rightharpoonup> jsval)) list option"
  | ErrorEvent

fun subscribeToShuttles :: "feed_event \<Rightarrow> normalized list" where
  "subscribeToShuttles (ValueEvent (Some entries)) =
     map (\<lambda>(i, shuttle). normalizeEntry i shuttle) entries"
| "subscribeToShuttles (ValueEvent None) = []"
| "subscribeToShuttles ErrorEvent = []"

section \<open>Activity classifier (services/firebase.js, isShuttleActive)\<close>

text \<open>
  The fallback on the last-seen time. \<open>now\<close> is the value of \<open>new Date()\<close> in
  milliseconds since the epoch; \<open>now - lastActive\<close> subtracts the two time values, and
  is \<open>NaN\<close> when \<open>lastActive\<close> is an invalid date. Two valid time values are integers
  that doubles hold exactly, and rounding their difference to a double does not change
  its comparison with 300000, so the difference is taken exactly.
\<close>

definition lastActiveWithinFiveMinutes :: "int \<Rightarrow> normalized \<Rightarrow> bool" where
  "lastActiveWithinFiveMinutes now shuttle =
     (let lastActiveTime = get (entry shuttle) ''lastActiveTime'' in
      if truthy lastActiveTime \<and> lastActiveTime \<noteq> JStr ''0'' then
        (let timestamp = parseInt10 lastActiveTime in
         if timestamp \<noteq> NaN then
           (let lastActive = newDate timestamp;
                fiveMinutes = Fin (5 * 60 * 1000)
            in js_lt (js_sub (Fin (real_of_int now)) lastActive) fiveMinutes)
         else False)
      else False)"

text \<open>
  \<open>shuttle.activeStatus.toLowerCase()\<close> is a method of strings only: on any other
  truthy value the call throws a TypeError.
\<close>

definition isShuttleActive :: "int \<Rightarrow> normalized \<Rightarrow> js_error + bool" where
  "isShuttleActive now shuttle =
     (let activeStatus = get (entry shuttle) ''activeStatus'' in
      if truthy activeStatus then
        (case activeStatus of
           JStr s \<Rightarrow>
             (let status = toLowerCase s in
              if status = ''active'' \<or> status = ''true'' \<or> status = ''1'' then Inr True
              else Inr (lastActiveWithinFiveMinutes now shuttle))
         | _ \<Rightarrow> Inl TypeError)
      else Inr (lastActiveWithinFiveMinutes now shuttle))"

section \<open>Route path extractor (hooks/useShuttles.js, formatRoutePath)\<close>

definition latOf :: "jsval \<Rightarrow> jsval" where
  "latOf point = js_or (getProp point ''lat'') (getProp point ''latitude'')"

definition lngOf :: "jsval \<Rightarrow> jsval" where
  "lngOf point = js_or (getProp point ''lng'') (getProp point ''longitude'')"

text \<open>The predicate of \<open>filter\<close> and the function of \<open>map\<close>.\<close>

definition keepPoint :: "jsval \<Rightarrow> bool" where
  "keepPoint point = (truthy point \<and> truthy (latOf point) \<and> truthy (lngOf point))"

definition toLatLng :: "jsval \<Rightarrow> jsnum \<times> jsnum" where
  "toLatLng point = (parseFloat (latOf point), parseFloat (lngOf point))"

definition hasPath :: "jsval \<Rightarrow> bool" where
  "hasPath segment =
     (truthy segment \<and> truthy (getProp segment ''path'') \<and> isArray (getProp segment ''path''))"

text \<open>The \<open>for \<dots> of\<close> loop: it returns at the first segment that has a path array.\<close>

fun firstSegmentPath :: "jsval list \<Rightarrow> (jsnum \<times> jsnum) list" where
  "firstSegmentPath [] = []"
| "firstSegmentPath (segment # rest) =
     (if hasPath segment
      then map toLatLng (filter keepPoint (elems (getProp segment ''path'')))
      else firstSegmentPath rest)"

definition formatRoutePath :: "jsval \<Rightarrow> (jsnum \<times> jsnum) list" where
  "formatRoutePath route = (if \<not> truthy route \<or> \<not> isArray route then []
                            else firstSegmentPath (elems route))"

text \<open>
  The renderer (components/Map/RoutePolyline.jsx) returns \<open>null\<close> on a path shorter than
  two points; an array is always truthy.
\<close>

definition routePolylineRenders :: "(jsnum \<times> jsnum) list \<Rightarrow> bool" where
  "routePolylineRenders path = (\<not> length path < 2)"

section \<open>Live synchronization (hooks/useShuttles.js, useShuttles)\<close>

text \<open>A processed shuttle: the normalized record with the two computed properties.\<close>

record shuttle = normalized +
  isActive :: bool
  routePath :: "(jsnum \<times> jsnum) list"

definition processShuttle :: "int \<Rightarrow> normalized \<Rightarrow> js_error + shuttle" where
  "processShuttle now s =
     (case isShuttleActive now s of
        Inl e \<Rightarrow> Inl e
      | Inr active \<Rightarrow>
          Inr (normalized.extend s
                 \<lparr> isActive = active,
                   routePath = formatRoutePath (get (entry s) ''route'') \<rparr>))"

text \<open>\<open>data.map(\<dots>)\<close>: the first exception ends the whole map.\<close>

fun processShuttles :: "int \<Rightarrow> normalized list \<Rightarrow> js_error + shuttle list" where
  "processShuttles now [] = Inr []"
| "processShuttles now (s # rest) =
     (case processShuttle now s of
        Inl e \<Rightarrow> Inl e
      | Inr p \<Rightarrow>
          (case processShuttles now rest of
             Inl e \<Rightarrow> Inl e
           | Inr ps \<Rightarrow> Inr (p # ps)))"

text \<open>The four state cells of the hook; \<open>None\<close> is \<open>null\<close>.\<close>

record hook_state =
  shuttles :: "shuttle list"
  loading :: bool
  error :: "string option"
  lastUpdated :: "int option"

definition initialHookState :: hook_state where
  "initialHookState = \<lparr> shuttles = [], loading = True, error = None, lastUpdated = None \<rparr>"

text \<open>
  The callback given to \<open>subscribeToShuttles\<close>. An exception thrown while the data is
  processed leaves the state as it was.
\<close>

definition useShuttlesCallback ::
  "int \<Rightarrow> normalized list \<Rightarrow> hook_state \<Rightarrow> js_error + hook_state" where
  "useShuttlesCallback now data st =
     (case processShuttles now data of
        Inl e \<Rightarrow> Inl e
      | Inr processedShuttles \<Rightarrow>
          Inr (st \<lparr> shuttles := processedShuttles,
                     loading := False,
                     lastUpdated := Some now,
                     error := None \<rparr>))"

text \<open>One event of the feed, from the listener to the hook's state.\<close>

definition onFeedEvent :: "int \<Rightarrow> feed_event \<Rightarrow> hook_state \<Rightarrow> js_error + hook_state" where
  "onFeedEvent now ev st = useShuttlesCallback now (subscribeToShuttles ev) st"

section \<open>Selection and nearest-vehicle controller (App.jsx)\<close>

subsection \<open>Floating-point arithmetic\<close>

text \<open>
  The program calculates the distance with doubles. What an operation gives on finite
  operands (a rounded result, an infinity after overflow, \<open>NaN\<close>) is a parameter, and so
  are the value of \<open>Math.PI\<close> and \<open>Math.atan2\<close> on arguments that are not \<open>NaN\<close>: every
  statement about the distance holds for each such arithmetic, that of IEEE 754 doubles
  among them.
\<close>

record arithmetic =
  fpAdd :: "real \<Rightarrow> real \<Rightarrow> jsnum"
  fpSub :: "real \<Rightarrow> real \<Rightarrow> jsnum"
  fpMul :: "real \<Rightarrow> real \<Rightarrow> jsnum"
  fpDiv :: "real \<Rightarrow> real \<Rightarrow> jsnum"
  fpSin :: "real \<Rightarrow> jsnum"
  fpCos :: "real \<Rightarrow> jsnum"
  fpSqrt :: "real \<Rightarrow> jsnum"
  fpAtan2 :: "jsnum \<Rightarrow> jsnum \<Rightarrow> jsnum"
  fpPI :: real

text \<open>
  The operators on all numbers. On \<open>NaN\<close> and the infinities IEEE 754 fixes the result,
  whatever the rounding.
\<close>

fun numAdd :: "arithmetic \<Rightarrow> jsnum \<Rightarrow> jsnum \<Rightarrow> jsnum" where
  "numAdd fp NaN b = NaN"
| "numAdd fp a NaN = NaN"
| "numAdd fp (Fin x) (Fin y) = fpAdd fp x y"
| "numAdd fp Infinity NegInfinity = NaN"
| "numAdd fp NegInfinity Infinity = NaN"
| "numAdd fp Infinity b = Infinity"
| "numAdd fp NegInfinity b = NegInfinity"
| "numAdd fp (Fin x) b = b"

fun numSub :: "arithmetic \<Rightarrow> jsnum \<Rightarrow> jsnum \<Rightarrow> jsnum" where
  "numSub fp NaN b = NaN"
| "numSub fp a NaN = NaN"
| "numSub fp (Fin x) (Fin y) = fpSub fp x y"
| "numSub fp Infinity Infinity = NaN"
| "numSub fp NegInfinity NegInfinity = NaN"
| "numSub fp Infinity b = Infinity"
| "numSub fp NegInfinity b = NegInfinity"
| "numSub fp (Fin x) Infinity = NegInfinity"
| "numSub fp (Fin x) NegInfinity = Infinity"

text \<open>The sign of a number that is not \<open>NaN\<close>.\<close>

fun signum :: "jsnum \<Rightarrow> int" where
  "signum Infinity = 1"
| "signum NegInfinity = - 1"
| "signum (Fin x) = (if 0 < x then 1 else if x < 0 then - 1 else 0)"
| "signum NaN = 0"

text \<open>
  A product with an infinite factor: \<open>NaN\<close> when the other factor is zero, else the
  infinity of the product's sign.
\<close>

fun numMul :: "arithmetic \<Rightarrow> jsnum \<Rightarrow> jsnum \<Rightarrow> jsnum" where
  "numMul fp NaN b = NaN"
| "numMul fp a NaN = NaN"
| "numMul fp (Fin x) (Fin y) = fpMul fp x y"
| "numMul fp a b =
     (if signum a * signum b = 0 then NaN
      else if 0 < signum a * signum b then Infinity else NegInfinity)"

text \<open>
  Division by a positive literal: the program divides by 180 and by 2 only.
\<close>

fun numDivBy :: "arithmetic \<Rightarrow> jsnum \<Rightarrow> real \<Rightarrow> jsnum" where
  "numDivBy fp (Fin x) c = fpDiv fp x c"
| "numDivBy fp a c = a"

fun numSin :: "arithmetic \<Rightarrow> jsnum \<Rightarrow> jsnum" where
  "numSin fp (Fin x) = fpSin fp x"
| "numSin fp a = NaN"

fun numCos :: "arithmetic \<Rightarrow> jsnum \<Rightarrow> jsnum" where
  "numCos fp (Fin x) = fpCos fp x"
| "numCos fp a = NaN"

fun numSqrt :: "arithmetic \<Rightarrow> jsnum \<Rightarrow> jsnum" where
  "numSqrt fp (Fin x) = (if x < 0 then NaN else fpSqrt fp x)"
| "numSqrt fp Infinity = Infinity"
| "numSqrt fp a = NaN"

definition numAtan2 :: "arithmetic \<Rightarrow> jsnum \<Rightarrow> jsnum \<Rightarrow> jsnum" where
  "numAtan2 fp y x = (if y = NaN \<or> x = NaN then NaN else fpAtan2 fp y x)"

subsection \<open>calculateDistance\<close>

definition calculateDistance ::
  "arithmetic \<Rightarrow> jsnum \<Rightarrow> jsnum \<Rightarrow> jsnum \<Rightarrow> jsnum \<Rightarrow> jsnum" where
  "calculateDistance fp lat1 lon1 lat2 lon2 =
     (let R = Fin 6371;
          PI = Fin (fpPI fp);
          dLat = numDivBy fp (numMul fp (numSub fp lat2 lat1) PI) 180;
          dLon = numDivBy fp (numMul fp (numSub fp lon2 lon1) PI) 180;
          a = numAdd fp
                (numMul fp (numSin fp (numDivBy fp dLat 2)) (numSin fp (numDivBy fp dLat 2)))
                (numMul fp
                   (numMul fp
                      (numMul fp (numCos fp (numDivBy fp (numMul fp lat1 PI) 180))
                                 (numCos fp (numDivBy fp (numMul fp lat2 PI) 180)))
                      (numSin fp (numDivBy fp dLon 2)))
                   (numSin fp (numDivBy fp dLon 2)));
          c = numMul fp (Fin 2)
                (numAtan2 fp (numSqrt fp a) (numSqrt fp (numSub fp (Fin 1) a)))
      in numMul fp R c)"

subsection \<open>Selection state\<close>

text \<open>The three state cells of \<open>App\<close>; \<open>None\<close> is \<open>null\<close>.\<close>

record selection =
  selectedShuttleId :: "string option"
  nearestShuttleId :: "string option"
  isLocating :: bool

definition initialSelection :: selection where
  "initialSelection =
     \<lparr> selectedShuttleId = None, nearestShuttleId = None, isLocating = False \<rparr>"

definition handleShuttleSelect :: "string option \<Rightarrow> selection \<Rightarrow> selection" where
  "handleShuttleSelect shuttleId st =
     (if shuttleId = selectedShuttleId st then
        st \<lparr> selectedShuttleId := None, nearestShuttleId := None \<rparr>
      else if shuttleId \<noteq> nearestShuttleId st then
        st \<lparr> selectedShuttleId := shuttleId, nearestShuttleId := None \<rparr>
      else
        st \<lparr> selectedShuttleId := shuttleId \<rparr>)"

text \<open>
  A click on the map background (components/Map/MapView.jsx, handleMapClick): it calls
  \<open>onShuttleSelect(null)\<close> when the selected id is truthy.
\<close>

definition handleMapClick :: "selection \<Rightarrow> selection" where
  "handleMapClick st =
     (if (case selectedShuttleId st of None \<Rightarrow> False | Some i \<Rightarrow> i \<noteq> [])
      then handleShuttleSelect None st else st)"

subsection \<open>handleFindNearest\<close>

datatype geo_error = PERMISSION_DENIED | POSITION_UNAVAILABLE | TIMEOUT | OTHER_CODE

text \<open>
  The answer of \<open>getCurrentPosition\<close>. The coordinates of a position are finite numbers
  (the Geolocation API declares them as \<open>double\<close>, which excludes \<open>NaN\<close> and the
  infinities).
\<close>

datatype geo_result = Position real real | PositionError geo_error

definition locationErrorMessage :: "geo_error \<Rightarrow> string" where
  "locationErrorMessage code = (case code of
       PERMISSION_DENIED \<Rightarrow>
         ''Location access denied. Please allow location access to find the nearest shuttle.''
     | POSITION_UNAVAILABLE \<Rightarrow> ''Location information is unavailable.''
     | TIMEOUT \<Rightarrow> ''Location request timed out.''
     | OTHER_CODE \<Rightarrow> ''Unable to get your location'')"

text \<open>\<open>shuttle.latitude && shuttle.longitude\<close>\<close>

definition validPosition :: "shuttle \<Rightarrow> bool" where
  "validPosition s = (truthyNum (latitude s) \<and> truthyNum (longitude s))"

definition distanceTo :: "arithmetic \<Rightarrow> jsnum \<Rightarrow> jsnum \<Rightarrow> shuttle \<Rightarrow> jsnum" where
  "distanceTo fp userLat userLng s =
     calculateDistance fp userLat userLng (latitude s) (longitude s)"

text \<open>The body of \<open>forEach\<close>, on the pair of \<open>nearestShuttle\<close> and \<open>minDistance\<close>.\<close>

definition nearestStep ::
  "arithmetic \<Rightarrow> jsnum \<Rightarrow> jsnum \<Rightarrow> shuttle option \<times> jsnum \<Rightarrow> shuttle \<Rightarrow>
     shuttle option \<times> jsnum" where
  "nearestStep fp userLat userLng acc s =
     (if validPosition s then
        (let distance = distanceTo fp userLat userLng s in
         if js_lt distance (snd acc) then (Some s, distance) else acc)
      else acc)"

definition findNearest ::
  "arithmetic \<Rightarrow> jsnum \<Rightarrow> jsnum \<Rightarrow> shuttle list \<Rightarrow> shuttle option" where
  "findNearest fp userLat userLng activeShuttles =
     fst (foldl (nearestStep fp userLat userLng) (None, Infinity) activeShuttles)"

text \<open>
  One run of \<open>handleFindNearest\<close>, with the answer of the geolocation request as an
  input: the arithmetic of the distance, whether \<open>navigator.geolocation\<close> exists, the
  shuttles of the current render, the position or the error. The result is the alert
  shown, if any, and the new state.
\<close>

definition handleFindNearest ::
  "arithmetic \<Rightarrow> bool \<Rightarrow> shuttle list \<Rightarrow> geo_result \<Rightarrow> selection \<Rightarrow>
     string option \<times> selection" where
  "handleFindNearest fp geolocation shuttleList geo st =
     (if \<not> geolocation then (Some ''Geolocation is not supported by your browser'', st)
      else
        let activeShuttles = filter isActive shuttleList in
        if length activeShuttles = 0 then (Some ''No active shuttles available'', st)
        else
          (case geo of
             Position userLat userLng \<Rightarrow>
               (case findNearest fp (Fin userLat) (Fin userLng) activeShuttles of
                  Some nearestShuttle \<Rightarrow>
                    (None, st \<lparr> selectedShuttleId := Some (shuttle_id nearestShuttle),
                                  nearestShuttleId := Some (shuttle_id nearestShuttle),
                                  isLocating := False \<rparr>)
                | None \<Rightarrow> (None, st \<lparr> isLocating := False \<rparr>))
           | PositionError code \<Rightarrow>
               (Some (locationErrorMessage code), st \<lparr> isLocating := False \<rparr>)))"

subsection \<open>Events of the controller\<close>

datatype event =
    ShuttleClick "string option"
  | MapClick
  | FindNearest bool "shuttle list" geo_result

fun controllerStep :: "arithmetic \<Rightarrow> selection \<Rightarrow> event \<Rightarrow> selection" where
  "controllerStep fp st (ShuttleClick shuttleId) = handleShuttleSelect shuttleId st"
| "controllerStep fp st MapClick = handleMapClick st"
| "controllerStep fp st (FindNearest geolocation shuttleList geo) =
     snd (handleFindNearest fp geolocation shuttleList geo st)"

definition runEvents :: "arithmetic \<Rightarrow> event list \<Rightarrow> selection" where
  "runEvents fp evs = foldl (controllerStep fp) initialSelection evs"

section \<open>Notions of the specification\<close>

text \<open>
  The definitions of this section are not translations of code: they state what the
  specification means by its words, or name a concrete input.
\<close>

subsection \<open>Selection state\<close>

text \<open>
  \<open>nearestId\<close> is either unset or equal to \<open>selectedId\<close>.
\<close>

definition selectionInvariant :: "selection \<Rightarrow> bool" where
  "selectionInvariant st =
     (nearestShuttleId st = None \<or> nearestShuttleId st = selectedShuttleId st)"

subsection \<open>Nearest search\<close>


definition candidate :: "shuttle \<Rightarrow> bool" where
  "candidate s = (isActive s \<and> validPosition s)"

definition comparableCandidate :: "arithmetic \<Rightarrow> real \<Rightarrow> real \<Rightarrow> shuttle \<Rightarrow> bool" where
  "comparableCandidate fp userLat userLng s =
     (candidate s \<and> js_lt (distanceTo fp (Fin userLat) (Fin userLng) s) Infinity)"

text \<open>
  \<open>w\<close> is the first element of minimum distance in \<open>cs\<close>: strictly nearer than every
  element before it, and no element after it is strictly nearer.
\<close>

definition firstMinimum :: "(shuttle \<Rightarrow> jsnum) \<Rightarrow> shuttle list \<Rightarrow> shuttle \<Rightarrow> bool" where
  "firstMinimum d cs w =
     (\<exists>before after. cs = before @ w # after \<and>
        (\<forall>c\<in>set before. js_lt (d w) (d c)) \<and>
        (\<forall>c\<in>set after. \<not> js_lt (d c) (d w)))"

text \<open>
  The records the loop can pick, and what holds of \<open>nearestShuttle\<close> and \<open>minDistance\<close>
  after the loop has run over \<open>xs\<close>.
\<close>

definition ranked :: "arithmetic \<Rightarrow> jsnum \<Rightarrow> jsnum \<Rightarrow> shuttle \<Rightarrow> bool" where
  "ranked fp userLat userLng s =
     (validPosition s \<and> js_lt (distanceTo fp userLat userLng s) Infinity)"

definition loopInvariant ::
  "arithmetic \<Rightarrow> jsnum \<Rightarrow> jsnum \<Rightarrow> shuttle list \<Rightarrow> shuttle option \<times> jsnum \<Rightarrow> bool" where
  "loopInvariant fp userLat userLng xs acc =
     ((filter (ranked fp userLat userLng) xs = [] \<and> acc = (None, Infinity)) \<or>
      (\<exists>w. firstMinimum (distanceTo fp userLat userLng)
              (filter (ranked fp userLat userLng) xs) w \<and>
            acc = (Some w, distanceTo fp userLat userLng w)))"

subsection \<open>The haversine formula without rounding\<close>

text \<open>
  The great-circle distance in kilometres between two points given in degrees, on a
  sphere of radius 6371 km, over the real numbers.
\<close>

definition haversineKm :: "real \<Rightarrow> real \<Rightarrow> real \<Rightarrow> real \<Rightarrow> real" where
  "haversineKm lat1 lon1 lat2 lon2 =
     2 * 6371 *
       arcsin (sqrt ((sin ((lat2 - lat1) * pi / 180 / 2))\<^sup>2 +
                     cos (lat1 * pi / 180) * cos (lat2 * pi / 180) *
                     (sin ((lon2 - lon1) * pi / 180 / 2))\<^sup>2))"

text \<open>
  An arithmetic that does not round: each operation gives the real result. It is not
  the arithmetic of the program; it shows what the formula of \<open>calculateDistance\<close>
  computes, and gives concrete distances.
\<close>

definition atan2 :: "real \<Rightarrow> real \<Rightarrow> real" where
  "atan2 y x =
     (if 0 < x then arctan (y / x)
      else if x < 0 then (if 0 \<le> y then arctan (y / x) + pi else arctan (y / x) - pi)
      else if 0 < y then pi / 2
      else if y < 0 then - pi / 2
      else 0)"

fun exactAtan2 :: "jsnum \<Rightarrow> jsnum \<Rightarrow> jsnum" where
  "exactAtan2 (Fin y) (Fin x) = Fin (atan2 y x)"
| "exactAtan2 (Fin y) Infinity = Fin 0"
| "exactAtan2 (Fin y) NegInfinity = Fin (if y < 0 then - pi else pi)"
| "exactAtan2 Infinity (Fin x) = Fin (pi / 2)"
| "exactAtan2 NegInfinity (Fin x) = Fin (- pi / 2)"
| "exactAtan2 Infinity Infinity = Fin (pi / 4)"
| "exactAtan2 Infinity NegInfinity = Fin (3 * pi / 4)"
| "exactAtan2 NegInfinity Infinity = Fin (- pi / 4)"
| "exactAtan2 NegInfinity NegInfinity = Fin (- 3 * pi / 4)"
| "exactAtan2 y x = NaN"

definition exactDiv :: "real \<Rightarrow> real \<Rightarrow> jsnum" where
  "exactDiv x y =
     (if y = 0 then (if x = 0 then NaN else if 0 < x then Infinity else NegInfinity)
      else Fin (x / y))"

definition exactArithmetic :: arithmetic where
  "exactArithmetic =
     \<lparr> fpAdd = (\<lambda>x y. Fin (x + y)),
       fpSub = (\<lambda>x y. Fin (x - y)),
       fpMul = (\<lambda>x y. Fin (x * y)),
       fpDiv = exactDiv,
       fpSin = (\<lambda>x. Fin (sin x)),
       fpCos = (\<lambda>x. Fin (cos x)),
       fpSqrt = (\<lambda>x. Fin (sqrt x)),
       fpAtan2 = exactAtan2,
       fpPI = pi \<rparr>"

subsection \<open>Activity\<close>

text \<open>
  The record as the specification types it: \<open>activeStatusRaw\<close> and \<open>lastActiveTime\<close>
  are strings or absent.
\<close>

fun stringOrAbsent :: "jsval \<Rightarrow> bool" where
  "stringOrAbsent (JStr s) = True"
| "stringOrAbsent JUndefined = True"
| "stringOrAbsent v = False"

fun stringOf :: "jsval \<Rightarrow> string option" where
  "stringOf (JStr s) = Some s"
| "stringOf v = None"

definition typedRecord :: "normalized \<Rightarrow> bool" where
  "typedRecord s = (stringOrAbsent (get (entry s) ''activeStatus'') \<and>
                    stringOrAbsent (get (entry s) ''lastActiveTime''))"

definition activeStatusRaw :: "normalized \<Rightarrow> string option" where
  "activeStatusRaw s = stringOf (get (entry s) ''activeStatus'')"

definition lastActiveTime :: "normalized \<Rightarrow> string option" where
  "lastActiveTime s = stringOf (get (entry s) ''lastActiveTime'')"

definition equalsIgnoreCase :: "string \<Rightarrow> string \<Rightarrow> bool" where
  "equalsIgnoreCase a b = (toLowerCase a = toLowerCase b)"

definition statusSaysActive :: "string option \<Rightarrow> bool" where
  "statusSaysActive status = (case status of
       None \<Rightarrow> False
     | Some a \<Rightarrow> equalsIgnoreCase a ''active'' \<or> equalsIgnoreCase a ''true'' \<or>
                 equalsIgnoreCase a ''1'')"

definition integerOf :: "string \<Rightarrow> int option" where
  "integerOf t = (case parseIntStr t of Fin r \<Rightarrow> Some \<lfloor>r\<rfloor> | _ \<Rightarrow> None)"

text \<open>
  The policy in the specification's words: the status first; else a last-seen time that
  is present, is not "0" and parses as an integer decides by the elapsed time, which is
  negative for a timestamp in the future; else inactive.
\<close>

definition isActiveByPolicy :: "int \<Rightarrow> string option \<Rightarrow> string option \<Rightarrow> bool" where
  "isActiveByPolicy now status time =
     (if statusSaysActive status then True
      else (case time of
              None \<Rightarrow> False
            | Some t \<Rightarrow>
                if t \<noteq> ''0'' then
                  (case integerOf t of
                     Some ts \<Rightarrow> now - ts < 5 * 60 * 1000
                   | None \<Rightarrow> False)
                else False))"

text \<open>
  The same policy with the range of valid dates: a timestamp more than 8.64e15 ms from
  the epoch makes an invalid date, and the record inactive.
\<close>

definition isActiveByValidDate :: "int \<Rightarrow> string option \<Rightarrow> string option \<Rightarrow> bool" where
  "isActiveByValidDate now status time =
     (if statusSaysActive status then True
      else (case time of
              None \<Rightarrow> False
            | Some t \<Rightarrow>
                if t \<noteq> ''0'' then
                  (case integerOf t of
                     Some ts \<Rightarrow> \<bar>ts\<bar> \<le> 8640000000000000 \<and> now - ts < 5 * 60 * 1000
                   | None \<Rightarrow> False)
                else False))"

subsection \<open>Route points\<close>

fun numberOrAbsent :: "jsval \<Rightarrow> bool" where
  "numberOrAbsent (JNum n) = True"
| "numberOrAbsent JUndefined = True"
| "numberOrAbsent v = False"

definition numericPoint :: "jsval \<Rightarrow> bool" where
  "numericPoint point =
     (numberOrAbsent (getProp point ''lat'') \<and> numberOrAbsent (getProp point ''latitude'') \<and>
      numberOrAbsent (getProp point ''lng'') \<and> numberOrAbsent (getProp point ''longitude''))"

text \<open>
  All points of all path arrays of a route.
\<close>

definition routePoints :: "jsval \<Rightarrow> jsval list" where
  "routePoints route = concat (map (\<lambda>segment. elems (getProp segment ''path'')) (elems route))"

subsection \<open>Concrete inputs\<close>

text \<open>
  The shuttles the hook holds after one feed event on its initial state, at a time in
  November 2023.
\<close>

definition shuttlesAfter :: "feed_event \<Rightarrow> shuttle list" where
  "shuttlesAfter ev =
     (case onFeedEvent 1700000000000 ev initialHookState of Inr st \<Rightarrow> shuttles st | Inl e \<Rightarrow> [])"

text \<open>
  The scenario of the specification; a record whose latitude is the string "Infinity";
  an active record without coordinates.
\<close>

definition scenarioFeed :: feed_event where
  "scenarioFeed = ValueEvent (Some
     [(''s1'', [''latitude'' \<mapsto> JStr ''33.64'', ''logitude'' \<mapsto> JStr ''72.98'',
                ''speed'' \<mapsto> JStr ''12'', ''activeStatus'' \<mapsto> JStr ''active''])])"


definition noPositionFeed :: feed_event where
  "noPositionFeed = ValueEvent (Some [(''s1'', [''activeStatus'' \<mapsto> JStr ''active''])])"

text \<open>
  A shuttle at the south pole before one at the north pole; two shuttles at the south
  pole. Seen from the north pole the first pair differs in distance and the second does
  not.
\<close>

definition poleFeed :: feed_event where
  "poleFeed = ValueEvent (Some
     [(''south'', [''latitude'' \<mapsto> JStr ''-90'', ''logitude'' \<mapsto> JStr ''90'',
                   ''activeStatus'' \<mapsto> JStr ''Active'']),
      (''north'', [''latitude'' \<mapsto> JStr ''90'', ''logitude'' \<mapsto> JStr ''90'',
                   ''activeStatus'' \<mapsto> JStr ''TRUE''])])"

definition tieFeed :: feed_event where
  "tieFeed = ValueEvent (Some
     [(''first'', [''latitude'' \<mapsto> JStr ''-90'', ''logitude'' \<mapsto> JStr ''90'',
                   ''activeStatus'' \<mapsto> JStr ''1'']),
      (''second'', [''latitude'' \<mapsto> JStr ''-90'', ''logitude'' \<mapsto> JStr ''45'',
                    ''activeStatus'' \<mapsto> JStr ''1''])])"

definition afterNearest :: selection where
  "afterNearest =
     \<lparr> selectedShuttleId = Some ''s1'', nearestShuttleId = Some ''s1'', isLocating = False \<rparr>"

definition afterClick :: selection where
  "afterClick =
     \<lparr> selectedShuttleId = Some ''s2'', nearestShuttleId = None, isLocating = False \<rparr>"

definition bothKeysEntry :: "string \<rightharpoonup> jsval" where
  "bothKeysEntry = [''logitude'' \<mapsto> JStr ''72.98'', ''longitude'' \<mapsto> JStr ''73.05'']"

definition correctKeyEntry :: "string \<rightharpoonup> jsval" where
  "correctKeyEntry = [''longitude'' \<mapsto> JStr ''73.05'']"

definition reversingEntry :: "string \<rightharpoonup> jsval" where
  "reversingEntry = [''speed'' \<mapsto> JStr ''-5'']"

definition farFutureRecord :: normalized where
  "farFutureRecord = normalizeEntry ''s1'' [''lastActiveTime'' \<mapsto> JStr ''8640000000000001'']"

definition recentRecord :: normalized where
  "recentRecord = normalizeEntry ''s1''
     [''activeStatus'' \<mapsto> JStr ''inactive'', ''lastActiveTime'' \<mapsto> JStr ''1699999940000'']"

definition singlePointRoute :: jsval where
  "singlePointRoute =
     JArr [JObj [(''path'', JArr [JObj [(''lat'', JNum (Fin 33.64)), (''lng'', JNum (Fin 72.98))]])]]"

definition twoPointRoute :: jsval where
  "twoPointRoute =
     JArr [JObj [(''title'', JStr ''Depot'')],
           JObj [(''path'', JArr [JObj [(''lat'', JNum (Fin 33.64)), (''lng'', JNum (Fin 72.98))],
                                  JObj [(''lat'', JNum (Fin 0)), (''lng'', JNum (Fin 72.99))],
                                  JObj [(''latitude'', JNum (Fin 33.65)),
                                        (''longitude'', JNum (Fin 72.99))]])]]"

definition zeroStringRoute :: jsval where
  "zeroStringRoute =
     JArr [JObj [(''path'', JArr [JObj [(''lat'', JStr ''0''), (''lng'', JStr ''72.98'')],
                                  JObj [(''lat'', JStr ''33.64''), (''lng'', JStr ''72.98'')]])]]"

section \<open>Evaluation of the concrete inputs\<close>

lemmas parse_simps =
  parseFloatStr_def strUnsignedDecimal_def signOf_def exponentPart_def scale10_def
  toDouble_def isDigit_def isWhiteSpace_def digitsValue_def digitValue_def parseIntStr_def
  Let_def

lemmas feed_simps =
  shuttlesAfter_def onFeedEvent_def useShuttlesCallback_def processShuttle_def
  isShuttleActive_def normalizeEntry_def get_def toLowerCase_def lowerChar_def
  upperLatin1_def lowerLatin1_def
  formatRoutePath_def orZero_def truthyNum_def initialHookState_def
  normalized.extend_def

lemmas route_simps =
  formatRoutePath_def hasPath_def keepPoint_def toLatLng_def latOf_def lngOf_def js_or_def
  truthyNum_def

lemma shuttlesAfter_scenarioFeed:
  "shuttlesAfter scenarioFeed =
     [\<lparr> shuttle_id = ''s1'',
        entry = [''latitude'' \<mapsto> JStr ''33.64'', ''logitude'' \<mapsto> JStr ''72.98'',
                 ''speed'' \<mapsto> JStr ''12'', ''activeStatus'' \<mapsto> JStr ''active''],
        latitude = Fin 33.64, longitude = Fin 72.98, prevLat = Fin 0, prevLong = Fin 0,
        speed = Fin 12, isActive = True, routePath = [] \<rparr>]"
  by (simp add: scenarioFeed_def feed_simps parse_simps)


lemma shuttlesAfter_noPositionFeed:
  "shuttlesAfter noPositionFeed =
     [\<lparr> shuttle_id = ''s1'', entry = [''activeStatus'' \<mapsto> JStr ''active''],
        latitude = Fin 0, longitude = Fin 0, prevLat = Fin 0, prevLong = Fin 0,
        speed = Fin 0, isActive = True, routePath = [] \<rparr>]"
  by (simp add: noPositionFeed_def feed_simps parse_simps)

section \<open>Properties of the feed normalizer\<close>

text \<open>
  C2 (amended). The normalizer reads the longitude from the misspelled key "logitude"
  alone: the record's longitude is its parsed value, or 0 when that is absent, zero or
  unparseable, and a field "longitude" of the entry has no effect on it.
\<close>

theorem C2_longitude_from_logitude:
  "longitude (normalizeEntry i shuttle) = orZero (parseFloat (get shuttle ''logitude'')) \<and>
   longitude (normalizeEntry i (shuttle(''longitude'' \<mapsto> v))) =
     longitude (normalizeEntry i shuttle) \<and>
   (shuttle ''logitude'' = None \<longrightarrow> longitude (normalizeEntry i shuttle) = Fin 0)"
  by (simp add: normalizeEntry_def get_def orZero_def truthyNum_def)

text \<open>
  C2, witness: an entry with the correctly spelled key only has no "logitude", and its
  record has longitude 0.
\<close>

theorem C2_witness:
  "correctKeyEntry ''logitude'' = None \<and>
   longitude (normalizeEntry ''s1'' correctKeyEntry) = Fin 0"
proof -
  have h: "correctKeyEntry ''logitude'' = None"
    by (simp add: correctKeyEntry_def)
  with C2_longitude_from_logitude [of "''s1''" correctKeyEntry "JStr ''72.98''"]
  show ?thesis by blast
qed

text \<open>
  C2 as stated fails: with both keys present the record's longitude is the value of the
  misspelled key, not that of the correctly spelled one.
\<close>

theorem C2_counterexample:
  "longitude (normalizeEntry ''s1'' bothKeysEntry) = Fin 72.98 \<and>
   parseFloat (get bothKeysEntry ''longitude'') = Fin 73.05 \<and>
   longitude (normalizeEntry ''s1'' bothKeysEntry) \<noteq> parseFloat (get bothKeysEntry ''longitude'')"
  by (simp add: bothKeysEntry_def normalizeEntry_def get_def orZero_def truthyNum_def parse_simps)

text \<open>
  C8 (amended). The record's speed is 0 when the entry's speed is absent or does not
  parse, and is never NaN; otherwise it is the parsed number, whatever its sign.
\<close>

theorem C8_speed_parse_or_zero:
  "(shuttle ''speed'' = None \<longrightarrow> speed (normalizeEntry i shuttle) = Fin 0) \<and>
   (parseFloat (get shuttle ''speed'') = NaN \<longrightarrow> speed (normalizeEntry i shuttle) = Fin 0) \<and>
   (parseFloat (get shuttle ''speed'') \<noteq> NaN \<longrightarrow>
      speed (normalizeEntry i shuttle) = parseFloat (get shuttle ''speed'')) \<and>
   speed (normalizeEntry i shuttle) \<noteq> NaN"
  by (simp add: normalizeEntry_def get_def orZero_def truthyNum_def)

text \<open>
  C8, witness: no speed, an unparseable speed, and the speed "12".
\<close>

theorem C8_witness:
  "speed (normalizeEntry ''s1'' Map.empty) = Fin 0 \<and>
   speed (normalizeEntry ''s1'' [''speed'' \<mapsto> JStr ''fast'']) = Fin 0 \<and>
   speed (normalizeEntry ''s1'' [''speed'' \<mapsto> JStr ''12'']) = Fin 12"
  using C8_speed_parse_or_zero [of Map.empty "''s1''"]
        C8_speed_parse_or_zero [of "[''speed'' \<mapsto> JStr ''fast'']" "''s1''"]
        C8_speed_parse_or_zero [of "[''speed'' \<mapsto> JStr ''12'']" "''s1''"]
  by (simp add: get_def parse_simps)

text \<open>C8 as stated fails: a speed of "-5" gives a record with the negative speed -5.\<close>

theorem C8_counterexample:
  "speed (normalizeEntry ''s1'' reversingEntry) = Fin (- 5) \<and>
   js_lt (speed (normalizeEntry ''s1'' reversingEntry)) (Fin 0)"
  by (simp add: reversingEntry_def normalizeEntry_def get_def orZero_def truthyNum_def parse_simps)

section \<open>Properties of the activity classifier\<close>

lemma parseIntStr_cases:
  "parseIntStr t = NaN \<or> (\<exists>k::int. parseIntStr t = Fin (real_of_int k))"
proof (cases "takeWhile isDigit (snd (signOf (dropWhile isWhiteSpace t))) = []")
  case True
  then show ?thesis by (simp add: parseIntStr_def Let_def)
next
  case False
  let ?n = "digitsValue (takeWhile isDigit (snd (signOf (dropWhile isWhiteSpace t))))"
  show ?thesis
  proof (cases "fst (signOf (dropWhile isWhiteSpace t))")
    case True
    then have "parseIntStr t = Fin (real_of_int (- int ?n))"
      using False by (simp add: parseIntStr_def Let_def)
    then show ?thesis by blast
  next
    case neg: False
    then have "parseIntStr t = Fin (real_of_int (int ?n))"
      using False by (simp add: parseIntStr_def Let_def)
    then show ?thesis by blast
  qed
qed

lemma trunc_of_int: "trunc (real_of_int k) = k"
  by (simp add: trunc_def)

lemma elapsed_of_int:
  "js_lt (js_sub (Fin (real_of_int now)) (newDate (Fin (real_of_int k)))) (Fin (5 * 60 * 1000))
     \<longleftrightarrow> \<bar>k\<bar> \<le> 8640000000000000 \<and> now - k < 5 * 60 * 1000"
proof (cases "\<bar>k\<bar> \<le> 8640000000000000")
  case True
  then have "\<bar>real_of_int k\<bar> \<le> 8640000000000000" by linarith
  then have "newDate (Fin (real_of_int k)) = Fin (real_of_int k)"
    by (simp add: newDate_def trunc_of_int)
  moreover have "real_of_int now - real_of_int k < 300000 \<longleftrightarrow> now - k < 300000"
    by linarith
  ultimately show ?thesis using True by simp
next
  case False
  then have "\<not> \<bar>real_of_int k\<bar> \<le> 8640000000000000" by linarith
  then have "newDate (Fin (real_of_int k)) = NaN"
    by (simp add: newDate_def)
  then show ?thesis using False by simp
qed

lemma lastActiveWithinFiveMinutes_string:
  assumes "get (entry s) ''lastActiveTime'' = JStr t"
  shows "lastActiveWithinFiveMinutes now s =
           (if t \<noteq> ''0'' then
              (case integerOf t of
                 Some ts \<Rightarrow> \<bar>ts\<bar> \<le> 8640000000000000 \<and> now - ts < 5 * 60 * 1000
               | None \<Rightarrow> False)
            else False)"
proof (cases "t = [] \<or> t = ''0''")
  case True
  then show ?thesis
  proof
    assume "t = []"
    then show ?thesis using assms
      by (simp add: lastActiveWithinFiveMinutes_def integerOf_def parseIntStr_def signOf_def)
  next
    assume "t = ''0''"
    then show ?thesis using assms by (simp add: lastActiveWithinFiveMinutes_def)
  qed
next
  case False
  then have t: "truthy (JStr t)" "JStr t \<noteq> JStr ''0''" "t \<noteq> ''0''" by simp_all
  from parseIntStr_cases [of t] show ?thesis
  proof
    assume "parseIntStr t = NaN"
    then show ?thesis using assms t
      by (simp add: lastActiveWithinFiveMinutes_def integerOf_def)
  next
    assume "\<exists>k::int. parseIntStr t = Fin (real_of_int k)"
    then obtain k :: int where k: "parseIntStr t = Fin (real_of_int k)" by blast
    then have "integerOf t = Some k" by (simp add: integerOf_def)
    then show ?thesis using assms t k elapsed_of_int [of now k]
      by (simp add: lastActiveWithinFiveMinutes_def Let_def)
  qed
qed

lemma lastActiveWithinFiveMinutes_absent:
  "get (entry s) ''lastActiveTime'' = JUndefined \<Longrightarrow> lastActiveWithinFiveMinutes now s = False"
  by (simp add: lastActiveWithinFiveMinutes_def)

lemma lastActiveWithinFiveMinutes_typed:
  assumes "stringOrAbsent (get (entry s) ''lastActiveTime'')"
  shows "lastActiveWithinFiveMinutes now s =
           (case lastActiveTime s of
              None \<Rightarrow> False
            | Some t \<Rightarrow>
                if t \<noteq> ''0'' then
                  (case integerOf t of
                     Some ts \<Rightarrow> \<bar>ts\<bar> \<le> 8640000000000000 \<and> now - ts < 5 * 60 * 1000
                   | None \<Rightarrow> False)
                else False)"
proof (cases "get (entry s) ''lastActiveTime''")
  case (JStr t)
  then show ?thesis
    using lastActiveWithinFiveMinutes_string [OF JStr, of now] by (simp add: lastActiveTime_def)
next
  case JUndefined
  then show ?thesis
    using lastActiveWithinFiveMinutes_absent [OF JUndefined, of now]
    by (simp add: lastActiveTime_def)
qed (use assms in simp_all)

lemma toLowerCase_literals:
  "toLowerCase ''active'' = ''active''" "toLowerCase ''true'' = ''true''"
  "toLowerCase ''1'' = ''1''"
  by (simp_all add: toLowerCase_def lowerChar_def upperLatin1_def lowerLatin1_def)

text \<open>
  C5 (amended). For a record whose activeStatus and lastActiveTime are strings or absent:
  isShuttleActive is true when activeStatus equals "active", "true" or "1" up to case;
  otherwise, when lastActiveTime is present, is not "0" and parses as an integer, it is
  true if and only if that timestamp is a valid date (at most 8.64e15 ms from the epoch)
  and less than five minutes before now, a timestamp in the future counting as recent;
  otherwise it is false.
\<close>

theorem C5_isShuttleActive:
  assumes "typedRecord s"
  shows "isShuttleActive now s =
           Inr (isActiveByValidDate now (activeStatusRaw s) (lastActiveTime s))"
proof -
  from assms have st: "stringOrAbsent (get (entry s) ''activeStatus'')"
    and tm: "stringOrAbsent (get (entry s) ''lastActiveTime'')"
    by (simp_all add: typedRecord_def)
  note fallback = lastActiveWithinFiveMinutes_typed [OF tm, of now]
  show ?thesis
  proof (cases "get (entry s) ''activeStatus''")
    case JUndefined
    then show ?thesis using fallback
      by (simp add: isShuttleActive_def isActiveByValidDate_def activeStatusRaw_def
                    statusSaysActive_def)
  next
    case (JStr a)
    show ?thesis
    proof (cases "a = []")
      case True
      then show ?thesis using JStr fallback
        by (simp add: isShuttleActive_def isActiveByValidDate_def activeStatusRaw_def
                      statusSaysActive_def equalsIgnoreCase_def toLowerCase_literals)
           (simp add: toLowerCase_def)
    next
      case False
      then show ?thesis using JStr fallback
        by (simp add: isShuttleActive_def isActiveByValidDate_def activeStatusRaw_def
                      statusSaysActive_def equalsIgnoreCase_def toLowerCase_literals Let_def)
    qed
  qed (use st in simp_all)
qed

text \<open>
  C5, witness: status "inactive" and a last-seen time one minute before now.
\<close>

theorem C5_witness:
  "typedRecord recentRecord \<and>
   isShuttleActive 1700000000000 recentRecord =
     Inr (isActiveByValidDate 1700000000000 (activeStatusRaw recentRecord)
            (lastActiveTime recentRecord)) \<and>
   isShuttleActive 1700000000000 recentRecord = Inr True"
proof -
  have h: "typedRecord recentRecord"
    by (simp add: typedRecord_def recentRecord_def normalizeEntry_def get_def)
  have "isActiveByValidDate 1700000000000 (activeStatusRaw recentRecord)
          (lastActiveTime recentRecord) = True"
    by (simp add: isActiveByValidDate_def activeStatusRaw_def lastActiveTime_def recentRecord_def
          normalizeEntry_def get_def statusSaysActive_def equalsIgnoreCase_def
          toLowerCase_def lowerChar_def upperLatin1_def lowerLatin1_def integerOf_def
          parse_simps)
  with h C5_isShuttleActive [OF h, of 1700000000000] show ?thesis by simp
qed

text \<open>
  C5 as stated fails: a timestamp beyond the range of dates lies in the future, yet the
  date made from it is invalid and the record is inactive.
\<close>

theorem C5_counterexample:
  "isShuttleActive 1700000000000 farFutureRecord = Inr False \<and>
   isActiveByPolicy 1700000000000 (activeStatusRaw farFutureRecord)
     (lastActiveTime farFutureRecord) = True"
  by (simp add: isShuttleActive_def lastActiveWithinFiveMinutes_def newDate_def
        isActiveByPolicy_def activeStatusRaw_def lastActiveTime_def farFutureRecord_def
        normalizeEntry_def get_def statusSaysActive_def integerOf_def parse_simps)

section \<open>Properties of the route path extractor\<close>

lemma firstSegmentPath_first:
  "\<forall>s\<in>set before. \<not> hasPath s \<Longrightarrow> hasPath segment \<Longrightarrow>
   firstSegmentPath (before @ segment # after) =
     map toLatLng (filter keepPoint (elems (getProp segment ''path'')))"
  by (induction before) simp_all

lemma firstSegmentPath_none:
  "\<forall>s\<in>set segments. \<not> hasPath s \<Longrightarrow> firstSegmentPath segments = []"
  by (induction segments) simp_all

text \<open>
  C3 (amended). formatRoutePath returns the usable points of the first segment that has
  a path array, as pairs in their original order, whatever their number: a path with
  exactly one usable point gives a routePath of one pair. It is RoutePolyline that draws
  nothing for a path shorter than two points.
\<close>

theorem C3_formatRoutePath_keeps_usable_points:
  assumes "\<forall>s\<in>set before. \<not> hasPath s" and "hasPath segment"
  shows "formatRoutePath (JArr (before @ segment # after)) =
           map toLatLng (filter keepPoint (elems (getProp segment ''path''))) \<and>
         length (formatRoutePath (JArr (before @ segment # after))) =
           length (filter keepPoint (elems (getProp segment ''path''))) \<and>
         (routePolylineRenders (formatRoutePath (JArr (before @ segment # after))) \<longleftrightarrow>
            2 \<le> length (filter keepPoint (elems (getProp segment ''path''))))"
  using firstSegmentPath_first [OF assms, of after]
  by (simp add: formatRoutePath_def routePolylineRenders_def not_less)

text \<open>
  C3, witness: a route whose first segment has no path and whose second has three
  points, one of them at latitude 0.
\<close>

theorem C3_witness:
  "formatRoutePath twoPointRoute = [(Fin 33.64, Fin 72.98), (Fin 33.65, Fin 72.99)] \<and>
   routePolylineRenders (formatRoutePath twoPointRoute)"
proof -
  let ?seg = "JObj [(''path'', JArr [JObj [(''lat'', JNum (Fin 33.64)), (''lng'', JNum (Fin 72.98))],
                                  JObj [(''lat'', JNum (Fin 0)), (''lng'', JNum (Fin 72.99))],
                                  JObj [(''latitude'', JNum (Fin 33.65)),
                                        (''longitude'', JNum (Fin 72.99))]])]"
  have a: "\<forall>s\<in>set [JObj [(''title'', JStr ''Depot'')]]. \<not> hasPath s"
    by (simp add: hasPath_def)
  have b: "hasPath ?seg" by (simp add: hasPath_def)
  from C3_formatRoutePath_keeps_usable_points [OF a b, of "[]"]
  show ?thesis
    by (simp add: twoPointRoute_def keepPoint_def toLatLng_def latOf_def lngOf_def js_or_def
                  truthyNum_def routePolylineRenders_def)
qed

text \<open>C3 as stated fails: a path of exactly one usable point gives a routePath of length 1.\<close>

theorem C3_counterexample:
  "formatRoutePath singlePointRoute = [(Fin 33.64, Fin 72.98)]"
  by (simp add: singlePointRoute_def route_simps)

lemma keepPoint_numeric:
  assumes "keepPoint point" and "numericPoint point"
  shows "truthyNum (fst (toLatLng point)) \<and> truthyNum (snd (toLatLng point))"
proof -
  have num: "truthyNum (parseFloat v)" if "truthy v" "numberOrAbsent v" for v
    using that by (cases v) simp_all
  have or: "numberOrAbsent (js_or a b)" if "numberOrAbsent a" "numberOrAbsent b" for a b
    using that by (simp add: js_or_def)
  from assms(2) have "numberOrAbsent (latOf point)" "numberOrAbsent (lngOf point)"
    by (simp_all add: numericPoint_def latOf_def lngOf_def or)
  moreover from assms(1) have "truthy (latOf point)" "truthy (lngOf point)"
    by (simp_all add: keepPoint_def)
  ultimately show ?thesis by (simp add: toLatLng_def num)
qed

lemma formatRoutePath_sources:
  "pair \<in> set (formatRoutePath route) \<Longrightarrow>
   \<exists>point\<in>set (routePoints route). keepPoint point \<and> pair = toLatLng point"
proof -
  have seg: "pair \<in> set (firstSegmentPath segments) \<Longrightarrow>
      \<exists>point\<in>set (concat (map (\<lambda>segment. elems (getProp segment ''path'')) segments)).
         keepPoint point \<and> pair = toLatLng point" for segments
    by (induction segments) (auto split: if_splits)
  assume "pair \<in> set (formatRoutePath route)"
  then show ?thesis
    using seg [of "elems route"]
    by (auto simp add: formatRoutePath_def routePoints_def split: if_splits)
qed

text \<open>
  C10 (amended). Every pair of the extracted routePath comes from a point whose
  latitude-like field (lat, else latitude) and longitude-like field (lng, else
  longitude) are both truthy; a point where one of them is missing or the number 0 is
  dropped. When the coordinate fields of the route's points are numbers, both components
  of every pair are therefore non-zero numbers.
\<close>

theorem C10_routePath_components:
  "(\<forall>pair\<in>set (formatRoutePath route).
      \<exists>point\<in>set (routePoints route). keepPoint point \<and> pair = toLatLng point) \<and>
   ((\<forall>point\<in>set (routePoints route). numericPoint point) \<longrightarrow>
      (\<forall>pair\<in>set (formatRoutePath route). truthyNum (fst pair) \<and> truthyNum (snd pair)))"
proof (rule conjI)
  show "\<forall>pair\<in>set (formatRoutePath route).
          \<exists>point\<in>set (routePoints route). keepPoint point \<and> pair = toLatLng point"
    using formatRoutePath_sources by blast
next
  show "(\<forall>point\<in>set (routePoints route). numericPoint point) \<longrightarrow>
          (\<forall>pair\<in>set (formatRoutePath route). truthyNum (fst pair) \<and> truthyNum (snd pair))"
  proof (intro impI ballI)
    fix pair
    assume num: "\<forall>point\<in>set (routePoints route). numericPoint point"
      and "pair \<in> set (formatRoutePath route)"
    then obtain point where "point \<in> set (routePoints route)" "keepPoint point"
      "pair = toLatLng point"
      using formatRoutePath_sources by blast
    with num show "truthyNum (fst pair) \<and> truthyNum (snd pair)"
      using keepPoint_numeric by blast
  qed
qed

text \<open>
  C10, witness: the same route, whose points carry numbers.
\<close>

theorem C10_witness:
  "list_all numericPoint (routePoints twoPointRoute) \<and>
   list_all (\<lambda>pair. truthyNum (fst pair) \<and> truthyNum (snd pair))
     (formatRoutePath twoPointRoute) \<and>
   formatRoutePath twoPointRoute \<noteq> []"
proof -
  have h: "\<forall>point\<in>set (routePoints twoPointRoute). numericPoint point"
    by (simp add: routePoints_def twoPointRoute_def numericPoint_def)
  have "formatRoutePath twoPointRoute \<noteq> []"
    by (simp add: twoPointRoute_def route_simps)
  with h C10_routePath_components [of twoPointRoute] show ?thesis
    unfolding list_all_iff by blast
qed

text \<open>
  C10 as stated fails: the string "0" is truthy, so the point is kept and its latitude
  parses to 0.
\<close>

theorem C10_counterexample:
  "formatRoutePath zeroStringRoute = [(Fin 0, Fin 72.98), (Fin 33.64, Fin 72.98)]"
  by (simp add: zeroStringRoute_def route_simps parse_simps)

section \<open>Properties of the live synchronization\<close>

text \<open>
  C9. On the error path of the subscription the hook's error stays null: the listener
  hands the callback an empty array, and the callback stores it as data.
\<close>

theorem C9_error_path_sets_no_error:
  "onFeedEvent now ErrorEvent st =
     Inr (st \<lparr> shuttles := [], loading := False, lastUpdated := Some now, error := None \<rparr>)"
  by (simp add: onFeedEvent_def useShuttlesCallback_def)

text \<open>
  C9, at the initial state of the hook: after the error event the hook reports no
  shuttles, no loading and no error.
\<close>

theorem C9_witness:
  "onFeedEvent 1700000000000 ErrorEvent initialHookState =
     Inr \<lparr> shuttles = [], loading = False, error = None,
           lastUpdated = Some 1700000000000 \<rparr>"
  using C9_error_path_sets_no_error [of 1700000000000 initialHookState]
  by (simp add: initialHookState_def)

text \<open>No event of the feed sets the hook's error.\<close>

lemma onFeedEvent_error_null:
  "onFeedEvent now ev st = Inr st' \<Longrightarrow> error st' = None"
  by (auto simp add: onFeedEvent_def useShuttlesCallback_def split: sum.splits)

section \<open>Properties of the controller\<close>

subsection \<open>The selection invariant\<close>

lemma invariant_initial: "selectionInvariant initialSelection"
  by (simp add: selectionInvariant_def initialSelection_def)

lemma invariant_handleShuttleSelect:
  "selectionInvariant st \<Longrightarrow> selectionInvariant (handleShuttleSelect shuttleId st)"
  by (auto simp add: selectionInvariant_def handleShuttleSelect_def)

lemma invariant_handleMapClick:
  "selectionInvariant st \<Longrightarrow> selectionInvariant (handleMapClick st)"
  by (simp add: handleMapClick_def invariant_handleShuttleSelect)

lemma invariant_handleFindNearest:
  "selectionInvariant st \<Longrightarrow>
   selectionInvariant (snd (handleFindNearest fp geolocation shuttleList geo st))"
  by (auto simp add: selectionInvariant_def handleFindNearest_def Let_def
           split: geo_result.splits option.splits)

lemma invariant_controllerStep:
  "selectionInvariant st \<Longrightarrow> selectionInvariant (controllerStep fp st ev)"
  by (cases ev)
     (simp_all add: invariant_handleShuttleSelect invariant_handleMapClick
                    invariant_handleFindNearest)

lemma invariant_foldl:
  "selectionInvariant st \<Longrightarrow> selectionInvariant (foldl (controllerStep fp) st evs)"
  by (induction evs arbitrary: st) (simp_all add: invariant_controllerStep)

text \<open>
  C6. In every state reached from the initial state by shuttle clicks, map clicks and
  runs of handleFindNearest, nearestShuttleId is null or equal to selectedShuttleId,
  whatever the arithmetic of the distance.
\<close>

theorem C6_selection_invariant: "selectionInvariant (runEvents fp evs)"
  unfolding runEvents_def by (rule invariant_foldl [OF invariant_initial])

text \<open>
  C6, witness: a click, a successful search, a click on the shuttle found, a click on
  the map.
\<close>

theorem C6_witness:
  "selectionInvariant
     (runEvents exactArithmetic
        [ShuttleClick (Some ''s2''),
         FindNearest True (shuttlesAfter scenarioFeed) (Position 33.65 72.99),
         ShuttleClick (Some ''s1''), MapClick])"
  using C6_selection_invariant
          [of exactArithmetic
              "[ShuttleClick (Some ''s2''),
                FindNearest True (shuttlesAfter scenarioFeed) (Position 33.65 72.99),
                ShuttleClick (Some ''s1''), MapClick]"]
  by simp

subsection \<open>Toggle selection\<close>

text \<open>
  C7. handleShuttleSelect with the selected id clears selectedShuttleId and
  nearestShuttleId; with another id it sets selectedShuttleId to that id and clears
  nearestShuttleId unless the id is the prior nearestShuttleId, which is then kept.
  Selecting the same shuttle twice from an unselected state leaves nothing selected.
\<close>

theorem C7_handleShuttleSelect:
  "(shuttleId = selectedShuttleId st \<longrightarrow>
      selectedShuttleId (handleShuttleSelect shuttleId st) = None \<and>
      nearestShuttleId (handleShuttleSelect shuttleId st) = None) \<and>
   (shuttleId \<noteq> selectedShuttleId st \<longrightarrow>
      selectedShuttleId (handleShuttleSelect shuttleId st) = shuttleId \<and>
      (shuttleId = nearestShuttleId st \<longrightarrow>
         nearestShuttleId (handleShuttleSelect shuttleId st) = nearestShuttleId st) \<and>
      (shuttleId \<noteq> nearestShuttleId st \<longrightarrow>
         nearestShuttleId (handleShuttleSelect shuttleId st) = None)) \<and>
   (selectedShuttleId st = None \<longrightarrow>
      selectedShuttleId
        (handleShuttleSelect (Some i) (handleShuttleSelect (Some i) st)) = None)"
  by (simp add: handleShuttleSelect_def)

text \<open>
  C7, witness: a first selection and its repetition, the shuttle found by the search
  clicked again, and a deselection with \<open>null\<close>.
\<close>

theorem C7_witness:
  "selectedShuttleId (handleShuttleSelect (Some ''s1'') initialSelection) = Some ''s1'' \<and>
   nearestShuttleId (handleShuttleSelect (Some ''s1'') initialSelection) = None \<and>
   selectedShuttleId
     (handleShuttleSelect (Some ''s1'') (handleShuttleSelect (Some ''s1'') initialSelection))
     = None \<and>
   selectedShuttleId (handleShuttleSelect (Some ''s1'') afterNearest) = None \<and>
   nearestShuttleId (handleShuttleSelect (Some ''s1'') afterNearest) = None \<and>
   selectedShuttleId (handleShuttleSelect None afterClick) = None \<and>
   nearestShuttleId (handleShuttleSelect None afterClick) = nearestShuttleId afterClick"
  using C7_handleShuttleSelect [of "Some ''s1''" initialSelection "''s1''"]
        C7_handleShuttleSelect [of "Some ''s1''" afterNearest "''s1''"]
        C7_handleShuttleSelect [of None afterClick "''s1''"]
  by (simp add: initialSelection_def afterNearest_def afterClick_def)

subsection \<open>Comparison of numbers\<close>

lemma js_lt_trans: "js_lt a b \<Longrightarrow> js_lt b c \<Longrightarrow> js_lt a c"
  by (cases a; cases b; cases c) simp_all

lemma js_lt_not_less: "js_lt a b \<Longrightarrow> \<not> js_lt c b \<Longrightarrow> c \<noteq> NaN \<Longrightarrow> js_lt a c"
  by (cases a; cases b; cases c) simp_all

lemma js_lt_not_NaN: "js_lt a b \<Longrightarrow> a \<noteq> NaN"
  by (cases a) simp_all

lemma not_below_Infinity: "\<not> js_lt a Infinity \<Longrightarrow> \<not> js_lt a b"
  by (cases a; cases b) simp_all

subsection \<open>The search loop\<close>

lemma nearestStep_unranked:
  assumes "\<not> ranked fp userLat userLng s"
  shows "nearestStep fp userLat userLng acc s = acc"
proof (cases "validPosition s")
  case True
  with assms have "\<not> js_lt (distanceTo fp userLat userLng s) Infinity"
    by (simp add: ranked_def)
  then have "\<not> js_lt (distanceTo fp userLat userLng s) (snd acc)"
    by (rule not_below_Infinity)
  then show ?thesis by (simp add: nearestStep_def Let_def)
next
  case False
  then show ?thesis by (simp add: nearestStep_def)
qed

lemma nearestStep_ranked:
  "ranked fp userLat userLng s \<Longrightarrow>
   nearestStep fp userLat userLng acc s =
     (if js_lt (distanceTo fp userLat userLng s) (snd acc)
      then (Some s, distanceTo fp userLat userLng s) else acc)"
  by (simp add: ranked_def nearestStep_def Let_def)

lemma firstMinimum_single: "firstMinimum d [s] s"
  unfolding firstMinimum_def by (rule exI [of _ "[]"], rule exI [of _ "[]"]) simp

lemma firstMinimum_member: "firstMinimum d cs w \<Longrightarrow> w \<in> set cs"
  unfolding firstMinimum_def by auto

lemma firstMinimum_keep:
  assumes "firstMinimum d cs w" and "\<not> js_lt (d s) (d w)"
  shows "firstMinimum d (cs @ [s]) w"
proof -
  from assms(1) obtain before after where
    cs: "cs = before @ w # after" and
    b: "\<forall>c\<in>set before. js_lt (d w) (d c)" and
    a: "\<forall>c\<in>set after. \<not> js_lt (d c) (d w)"
    unfolding firstMinimum_def by blast
  have "cs @ [s] = before @ w # (after @ [s])" using cs by simp
  moreover have "\<forall>c\<in>set (after @ [s]). \<not> js_lt (d c) (d w)"
    using a assms(2) by simp
  ultimately show ?thesis unfolding firstMinimum_def using b by blast
qed

lemma firstMinimum_replace:
  assumes min: "firstMinimum d cs w" and less: "js_lt (d s) (d w)"
    and num: "\<forall>c\<in>set cs. d c \<noteq> NaN"
  shows "firstMinimum d (cs @ [s]) s"
proof -
  from min obtain before after where
    cs: "cs = before @ w # after" and
    b: "\<forall>c\<in>set before. js_lt (d w) (d c)" and
    a: "\<forall>c\<in>set after. \<not> js_lt (d c) (d w)"
    unfolding firstMinimum_def by blast
  have "js_lt (d s) (d c)" if "c \<in> set cs" for c
  proof -
    from that cs have "c \<in> set before \<or> c = w \<or> c \<in> set after" by auto
    then show ?thesis
    proof (elim disjE)
      assume "c \<in> set before"
      then have "js_lt (d w) (d c)" using b by blast
      with less show ?thesis by (rule js_lt_trans)
    next
      assume "c = w"
      then show ?thesis using less by simp
    next
      assume "c \<in> set after"
      then have "\<not> js_lt (d c) (d w)" using a by blast
      moreover have "d c \<noteq> NaN" using num that by blast
      ultimately show ?thesis using less by (blast intro: js_lt_not_less)
    qed
  qed
  then have "\<forall>c\<in>set cs. js_lt (d s) (d c)" by blast
  moreover have "cs @ [s] = cs @ s # []" by simp
  ultimately show ?thesis unfolding firstMinimum_def by (metis empty_iff list.set(1))
qed

lemma loopInvariant_step:
  assumes inv: "loopInvariant fp userLat userLng xs acc"
  shows "loopInvariant fp userLat userLng (xs @ [s]) (nearestStep fp userLat userLng acc s)"
proof (cases "ranked fp userLat userLng s")
  case False
  then show ?thesis using inv
    by (simp add: loopInvariant_def nearestStep_unranked)
next
  case True
  let ?d = "distanceTo fp userLat userLng"
  let ?cs = "filter (ranked fp userLat userLng) xs"
  have below: "js_lt (?d s) Infinity" using True by (simp add: ranked_def)
  have flt: "filter (ranked fp userLat userLng) (xs @ [s]) = ?cs @ [s]" using True by simp
  from inv show ?thesis unfolding loopInvariant_def
  proof
    assume h: "?cs = [] \<and> acc = (None, Infinity)"
    then have "nearestStep fp userLat userLng acc s = (Some s, ?d s)"
      using True below by (simp add: nearestStep_ranked)
    moreover have "firstMinimum ?d (filter (ranked fp userLat userLng) (xs @ [s])) s"
      using flt h firstMinimum_single by simp
    ultimately show "(filter (ranked fp userLat userLng) (xs @ [s]) = [] \<and>
         nearestStep fp userLat userLng acc s = (None, Infinity)) \<or>
        (\<exists>w. firstMinimum ?d (filter (ranked fp userLat userLng) (xs @ [s])) w \<and>
             nearestStep fp userLat userLng acc s = (Some w, ?d w))"
      by blast
  next
    assume "\<exists>w. firstMinimum ?d ?cs w \<and> acc = (Some w, ?d w)"
    then obtain w where w: "firstMinimum ?d ?cs w" and acc: "acc = (Some w, ?d w)" by blast
    have num: "\<forall>c\<in>set ?cs. ?d c \<noteq> NaN"
      by (auto simp add: ranked_def dest: js_lt_not_NaN)
    show "(filter (ranked fp userLat userLng) (xs @ [s]) = [] \<and>
         nearestStep fp userLat userLng acc s = (None, Infinity)) \<or>
        (\<exists>w. firstMinimum ?d (filter (ranked fp userLat userLng) (xs @ [s])) w \<and>
             nearestStep fp userLat userLng acc s = (Some w, ?d w))"
    proof (cases "js_lt (?d s) (?d w)")
      case less: True
      have "nearestStep fp userLat userLng acc s = (Some s, ?d s)"
        using True acc less by (simp add: nearestStep_ranked)
      moreover have "firstMinimum ?d (?cs @ [s]) s"
        using w less num by (rule firstMinimum_replace)
      ultimately show ?thesis using flt by auto
    next
      case False
      have "nearestStep fp userLat userLng acc s = acc"
        using True acc False by (simp add: nearestStep_ranked)
      moreover have "firstMinimum ?d (?cs @ [s]) w"
        using w False by (rule firstMinimum_keep)
      ultimately show ?thesis using flt acc by auto
    qed
  qed
qed

lemma loopInvariant_foldl:
  "loopInvariant fp userLat userLng xs
     (foldl (nearestStep fp userLat userLng) (None, Infinity) xs)"
proof (induction xs rule: rev_induct)
  case Nil
  show ?case by (simp add: loopInvariant_def)
next
  case (snoc s xs)
  then show ?case using loopInvariant_step by simp
qed

text \<open>
  Without a record of comparable distance the loop finds nothing; with one it finds the
  first of minimum distance.
\<close>

lemma findNearest_None:
  "filter (ranked fp userLat userLng) xs = [] \<Longrightarrow> findNearest fp userLat userLng xs = None"
  using loopInvariant_foldl [of fp userLat userLng xs]
  by (auto simp add: loopInvariant_def findNearest_def dest: firstMinimum_member)


lemma filter_ranked_active:
  "filter (ranked fp (Fin userLat) (Fin userLng)) (filter isActive xs) =
     filter (comparableCandidate fp userLat userLng) xs"
  by (induction xs) (auto simp add: ranked_def comparableCandidate_def candidate_def)

subsection \<open>Coordinates that are not finite\<close>










subsection \<open>The formula without rounding\<close>

lemma cos_product:
  fixes x y :: real
  shows "cos (y - x) * cos (y + x) = (cos y)\<^sup>2 - (sin x)\<^sup>2"
proof -
  have "cos (y - x) * cos (y + x) = (cos y * cos x)\<^sup>2 - (sin y * sin x)\<^sup>2"
    unfolding cos_diff cos_add by (simp add: power2_eq_square algebra_simps)
  also have "\<dots> = (cos y)\<^sup>2 * (1 - (sin x)\<^sup>2) - (1 - (cos y)\<^sup>2) * (sin x)\<^sup>2"
    unfolding power_mult_distrib cos_squared_eq [of x] sin_squared_eq [of y] ..
  also have "\<dots> = (cos y)\<^sup>2 - (sin x)\<^sup>2"
    by (simp add: algebra_simps)
  finally show ?thesis .
qed

lemma haversine_range:
  fixes lat1 lon1 lat2 lon2 :: real
  defines "dLat \<equiv> (lat2 - lat1) * pi / 180"
  defines "dLon \<equiv> (lon2 - lon1) * pi / 180"
  defines "a \<equiv> sin (dLat / 2) * sin (dLat / 2) +
              cos (lat1 * pi / 180) * cos (lat2 * pi / 180) *
              sin (dLon / 2) * sin (dLon / 2)"
  shows "0 \<le> a \<and> a \<le> 1"
proof -
  define x where "x = dLat / 2"
  define y where "y = (lat1 * pi / 180 + lat2 * pi / 180) / 2"
  define s where "s = (sin (dLon / 2))\<^sup>2"
  have p: "lat1 * pi / 180 = y - x" and q: "lat2 * pi / 180 = y + x"
    by (simp_all add: x_def y_def dLat_def field_simps)
  have s01: "0 \<le> s" "s \<le> 1" by (simp_all add: s_def abs_square_le_1)
  have A: "0 \<le> (sin x)\<^sup>2" "(sin x)\<^sup>2 \<le> 1" by (simp_all add: abs_square_le_1)
  have B: "0 \<le> (cos y)\<^sup>2" "(cos y)\<^sup>2 \<le> 1" by (simp_all add: abs_square_le_1)
  have "a = (sin x)\<^sup>2 + (cos (y - x) * cos (y + x)) * s"
    unfolding a_def p q by (simp add: x_def s_def power2_eq_square)
  also have "\<dots> = (1 - s) * (sin x)\<^sup>2 + s * (cos y)\<^sup>2"
    unfolding cos_product by (simp add: algebra_simps)
  finally have a: "a = (1 - s) * (sin x)\<^sup>2 + s * (cos y)\<^sup>2" .
  have "0 \<le> (1 - s) * (sin x)\<^sup>2" "0 \<le> s * (cos y)\<^sup>2"
    using s01 A B by simp_all
  moreover have "(1 - s) * (sin x)\<^sup>2 \<le> (1 - s) * 1" "s * (cos y)\<^sup>2 \<le> s * 1"
    using s01 A B by (simp_all add: mult_left_mono del: mult_1_right)
  ultimately show ?thesis using a by simp
qed


lemma atan2_sqrt:
  assumes "0 \<le> a" and "a \<le> 1"
  shows "atan2 (sqrt a) (sqrt (1 - a)) = arcsin (sqrt a)"
proof (cases "a = 1")
  case True
  then show ?thesis by (simp add: atan2_def)
next
  case False
  with assms have lt: "a < 1" by simp
  then have pos: "0 < sqrt (1 - a)" by simp
  have "sqrt a < 1" using lt assms(1) by (simp add: real_sqrt_lt_1_iff)
  moreover have "- 1 < sqrt a" using assms(1) by (smt (verit) real_sqrt_ge_zero)
  ultimately have "arcsin (sqrt a) = arctan (sqrt a / sqrt (1 - (sqrt a)\<^sup>2))"
    by (rule arcsin_arctan [rotated])
  then show ?thesis using pos assms(1) by (simp add: atan2_def)
qed

text \<open>
  Without rounding, \<open>calculateDistance\<close> of finite coordinates is the haversine distance:
  always a number.
\<close>

lemma calculateDistance_exact:
  "calculateDistance exactArithmetic (Fin lat1) (Fin lon1) (Fin lat2) (Fin lon2) =
     Fin (haversineKm lat1 lon1 lat2 lon2)"
proof -
  define a where "a = sin ((lat2 - lat1) * pi / 180 / 2) * sin ((lat2 - lat1) * pi / 180 / 2) +
              cos (lat1 * pi / 180) * cos (lat2 * pi / 180) *
              sin ((lon2 - lon1) * pi / 180 / 2) * sin ((lon2 - lon1) * pi / 180 / 2)"
  have range: "0 \<le> a \<and> a \<le> 1"
    unfolding a_def by (rule haversine_range)
  have "calculateDistance exactArithmetic (Fin lat1) (Fin lon1) (Fin lat2) (Fin lon2) =
          Fin (6371 * (2 * atan2 (sqrt a) (sqrt (1 - a))))"
    using range unfolding a_def
    by (simp add: calculateDistance_def exactArithmetic_def exactDiv_def Let_def numAtan2_def
                  not_less)
  also have "\<dots> = Fin (6371 * (2 * arcsin (sqrt a)))"
    using range by (simp add: atan2_sqrt)
  also have "\<dots> = Fin (haversineKm lat1 lon1 lat2 lon2)"
    by (simp add: haversineKm_def a_def power2_eq_square algebra_simps)
  finally show ?thesis .
qed

lemma haversineKm_antipode: "haversineKm 90 90 (- 90) lon = 6371 * pi"
  by (simp add: haversineKm_def)

lemma haversineKm_same_point: "haversineKm lat lon lat lon = 0"
  by (simp add: haversineKm_def)

lemmas search_simps =
  handleFindNearest_def findNearest_def nearestStep_def validPosition_def distanceTo_def
  calculateDistance_exact haversineKm_antipode haversineKm_same_point initialSelection_def

text \<open>
  From the north pole the nearer shuttle wins although it comes second, and of two
  shuttles at the same distance the first wins.
\<close>

lemma handleFindNearest_poleFeed:
  "handleFindNearest exactArithmetic True (shuttlesAfter poleFeed) (Position 90 90)
       initialSelection =
     (None, \<lparr> selectedShuttleId = Some ''north'', nearestShuttleId = Some ''north'',
               isLocating = False \<rparr>)"
  by (simp add: poleFeed_def feed_simps parse_simps search_simps)

lemma handleFindNearest_tieFeed:
  "handleFindNearest exactArithmetic True (shuttlesAfter tieFeed) (Position 90 90)
       initialSelection =
     (None, \<lparr> selectedShuttleId = Some ''first'', nearestShuttleId = Some ''first'',
               isLocating = False \<rparr>)"
  by (simp add: tieFeed_def feed_simps parse_simps search_simps)

subsection \<open>The nearest shuttle\<close>



text \<open>
  When no candidate has a comparable distance, nothing is selected and no alert is
  shown.
\<close>

lemma handleFindNearest_nothing_comparable:
  assumes "filter isActive shuttleList \<noteq> []"
    and "filter (comparableCandidate fp userLat userLng) shuttleList = []"
  shows "handleFindNearest fp True shuttleList (Position userLat userLng) st =
           (None, st \<lparr> isLocating := False \<rparr>)"
proof -
  have "filter (ranked fp (Fin userLat) (Fin userLng)) (filter isActive shuttleList) = []"
    using assms(2) by (simp only: filter_ranked_active)
  then have "findNearest fp (Fin userLat) (Fin userLng) (filter isActive shuttleList) = None"
    by (rule findNearest_None)
  with assms(1) show ?thesis by (simp add: handleFindNearest_def Let_def)
qed



text \<open>
  C4 (amended). With geolocation available, handleFindNearest fails with "No active
  shuttles available" if and only if no record of the snapshot is active (the position
  is not looked at for this); on this failure the state is unchanged.
\<close>

theorem C4_no_active_shuttles:
  "(fst (handleFindNearest fp True shuttleList geo st) = Some ''No active shuttles available''
      \<longleftrightarrow> filter isActive shuttleList = []) \<and>
   (filter isActive shuttleList = [] \<longrightarrow>
      snd (handleFindNearest fp True shuttleList geo st) = st)"
proof (cases "filter isActive shuttleList = []")
  case True
  then show ?thesis by (simp add: handleFindNearest_def)
next
  case False
  then have "fst (handleFindNearest fp True shuttleList geo st) \<noteq>
               Some ''No active shuttles available''"
    by (simp add: handleFindNearest_def Let_def locationErrorMessage_def
             split: geo_result.splits option.splits geo_error.splits)
  with False show ?thesis by simp
qed

text \<open>
  C4, witness: an empty snapshot.
\<close>

theorem C4_witness:
  "fst (handleFindNearest exactArithmetic True [] (Position 33.65 72.99) initialSelection) =
     Some ''No active shuttles available'' \<and>
   filter isActive ([] :: shuttle list) = [] \<and>
   snd (handleFindNearest exactArithmetic True [] (Position 33.65 72.99) initialSelection) =
     initialSelection"
  using C4_no_active_shuttles [of exactArithmetic "[]" "Position 33.65 72.99" initialSelection]
  by simp

text \<open>
  C4 as stated fails: an active record without a position leaves the set of active
  records with a valid position empty, and no failure is reported.
\<close>

theorem C4_counterexample:
  "filter candidate (shuttlesAfter noPositionFeed) = [] \<and>
   fst (handleFindNearest exactArithmetic True (shuttlesAfter noPositionFeed)
          (Position 33.65 72.99) initialSelection) = None"
  by (simp add: shuttlesAfter_noPositionFeed candidate_def validPosition_def truthyNum_def
                handleFindNearest_def findNearest_def nearestStep_def)

end
